theory Spec2Isabelle
  imports Complex_Main "HOL-Library.Sublist" "HOL-Library.Multiset"
begin

section \<open>EmissionExplorer: the computations of \<^verbatim>\<open>app.py\<close>\<close>

text \<open>
  The program is one Python script. Its computations are embedded here as HOL functions:
  the baseline footprint formula (\<^verbatim>\<open>calculate_co2_footprint\<close>), the assembly of the feature
  vector (\<^verbatim>\<open>predict_co2_with_ml\<close>), the synthetic training table (\<^verbatim>\<open>train_co2_model\<close>) and
  the feature-importance ranking.

  Numbers. Python floats are modelled by exact rationals (\<^typ>\<open>rat\<close>): products, quotients
  and sums are exact, so the binary rounding error of IEEE doubles is abstracted away; the
  decimal rounding that the program asks for with \<^verbatim>\<open>round(x, 2)\<close> is modelled. Python
  integers are \<^typ>\<open>int\<close>.

  Strings. A Python \<^verbatim>\<open>str\<close> is a \<^typ>\<open>string\<close> holding its UTF-8 bytes; equality and
  \<^verbatim>\<open>startswith\<close> agree on code points and on UTF-8 bytes.

  Libraries. geopy, numpy, pandas, scikit-learn and Streamlit are not part of the program:
  the values they return are parameters of the model.
\<close>

subsection \<open>Exceptions and numbers\<close>

datatype exn =
    ZeroDivisionError
  | KeyError string
  | ValueError
  | IndexError
  | LibraryError string

text \<open>Rounding to the nearest integer, ties to the even neighbour.\<close>

definition round_half_even :: "rat \<Rightarrow> int" where
  "round_half_even q =
     (let f = \<lfloor>q\<rfloor>; d = q - of_int f
      in if d < 1 / 2 then f
         else if 1 / 2 < d then f + 1
         else if even f then f else f + 1)"

text \<open>
  \<^verbatim>\<open>round(x, ndigits)\<close> on a float: the nearest multiple of \<open>10 ^ (- ndigits)\<close>, ties to
  even. (On a binary float a decimal tie is rarely exact, so at an exact rational tie the
  float may go either way; no theorem below depends on the direction of a tie.)
\<close>

definition py_round :: "rat \<Rightarrow> nat \<Rightarrow> rat" where
  "py_round x ndigits = of_int (round_half_even (x * 10 ^ ndigits)) / 10 ^ ndigits"

text \<open>\<^verbatim>\<open>x / n\<close> for a float \<open>x\<close> and an integer \<open>n\<close>: raises on a zero divisor.\<close>

definition py_truediv :: "rat \<Rightarrow> int \<Rightarrow> exn + rat" where
  "py_truediv x n = (if n = 0 then Inl ZeroDivisionError else Inr (x / of_int n))"

text \<open>\<^verbatim>\<open>d[k]\<close> on a dict literal: raises \<^verbatim>\<open>KeyError\<close> on a missing key.\<close>

definition dict_get :: "(string \<times> 'v) list \<Rightarrow> string \<Rightarrow> exn + 'v" where
  "dict_get d k = (case map_of d k of None \<Rightarrow> Inl (KeyError k) | Some v \<Rightarrow> Inr v)"

subsection \<open>The baseline formula\<close>

definition emission_factors :: "(string \<times> rat) list" where
  "emission_factors =
     [(''Auto'', 0.17), (''Flugzeug'', 0.24), (''Zug'', 0.04), (''Bus'', 0.07),
      (''Motorrad'', 0.11)]"

text \<open>
  The table that the function body binds locally; the module-level table of the same name
  has the same entries.
\<close>

definition distance_factors :: "(string \<times> rat) list" where
  "distance_factors =
     [(''Auto'', 1.2), (''Flugzeug'', 1.0), (''Zug'', 1.3), (''Bus'', 1.3),
      (''Motorrad'', 1.2)]"

record row =
  Transportmittel :: string
  Distanz_km :: rat
  CO2_pro_Person_kg :: rat
  Gesamt_CO2_kg :: rat

text \<open>One pass of the loop \<^verbatim>\<open>for transport in transports\<close>: the dictionary built and appended.\<close>

definition comparison_row :: "rat \<Rightarrow> int \<Rightarrow> string \<Rightarrow> exn + row" where
  "comparison_row direct_distance num_travelers transport =
     (case dict_get distance_factors transport of
        Inl e \<Rightarrow> Inl e
      | Inr factor \<Rightarrow>
          let distance = direct_distance * factor in
          (case dict_get emission_factors transport of
             Inl e \<Rightarrow> Inl e
           | Inr co2_per_km \<Rightarrow>
               let total_co2 = distance * co2_per_km in
               (case py_truediv total_co2 num_travelers of
                  Inl e \<Rightarrow> Inl e
                | Inr co2_per_person \<Rightarrow>
                    Inr \<lparr>Transportmittel = transport,
                         Distanz_km = py_round distance 2,
                         CO2_pro_Person_kg = py_round co2_per_person 2,
                         Gesamt_CO2_kg = py_round total_co2 2\<rparr>)))"

text \<open>The loop: the first exception ends it.\<close>

fun results_loop :: "rat \<Rightarrow> int \<Rightarrow> string list \<Rightarrow> exn + row list" where
  "results_loop direct_distance num_travelers [] = Inr []"
| "results_loop direct_distance num_travelers (transport # transports) =
     (case comparison_row direct_distance num_travelers transport of
        Inl e \<Rightarrow> Inl e
      | Inr r \<Rightarrow>
          (case results_loop direct_distance num_travelers transports of
             Inl e \<Rightarrow> Inl e
           | Inr rs \<Rightarrow> Inr (r # rs)))"

record location =
  latitude :: rat
  longitude :: rat

type_synonym coords = "rat \<times> rat"

text \<open>
  The two messages that the function shows with \<^verbatim>\<open>st.error\<close> before it returns \<^verbatim>\<open>None\<close>:
  "Konnte einen oder beide Standorte nicht finden" and "Fehler bei der Berechnung: e".
\<close>

datatype message = LocationNotFound | CalculationError exn

text \<open>
  \<^verbatim>\<open>calculate_co2_footprint\<close>. The geocoder and the geodesic distance are parameters; a
  lookup returns a location, \<^verbatim>\<open>None\<close>, or raises. \<open>Inl m\<close> is: message \<open>m\<close> shown and
  \<^verbatim>\<open>None\<close> returned; \<open>Inr\<close> holds the returned tuple.
\<close>

definition calculate_co2_footprint ::
  "(string \<Rightarrow> exn + location option) \<Rightarrow> (coords \<Rightarrow> coords \<Rightarrow> exn + rat) \<Rightarrow>
   string \<Rightarrow> string \<Rightarrow> string list \<Rightarrow> int \<Rightarrow>
   message + (row list \<times> rat \<times> coords \<times> coords)" where
  "calculate_co2_footprint geocode geodesic_km start end transports num_travelers =
     (case geocode start of
        Inl e \<Rightarrow> Inl (CalculationError e)
      | Inr start_location \<Rightarrow>
          (case geocode end of
             Inl e \<Rightarrow> Inl (CalculationError e)
           | Inr end_location \<Rightarrow>
               (case (start_location, end_location) of
                  (Some s, Some e) \<Rightarrow>
                    let start_coords = (latitude s, longitude s);
                        end_coords = (latitude e, longitude e)
                    in (case geodesic_km start_coords end_coords of
                          Inl x \<Rightarrow> Inl (CalculationError x)
                        | Inr km \<Rightarrow>
                            let direct_distance = py_round km 2 in
                            (case results_loop direct_distance num_travelers transports of
                               Inl x \<Rightarrow> Inl (CalculationError x)
                             | Inr results \<Rightarrow>
                                 Inr (results, direct_distance, start_coords, end_coords)))
                | _ \<Rightarrow> Inl LocationNotFound)))"

text \<open>
  The factor tables of the specification, under the names the program gives the modes
  (Car, Plane, Train, Bus, Motorcycle): mode, distance factor, emission factor.
\<close>

definition spec_factors :: "(string \<times> rat \<times> rat) list" where
  "spec_factors =
     [(''Auto'', 1.2, 0.17), (''Flugzeug'', 1.0, 0.24), (''Zug'', 1.3, 0.04),
      (''Bus'', 1.3, 0.07), (''Motorrad'', 1.2, 0.11)]"

text \<open>
  The row that the specification's formula gives for one entry of that table, with the
  program's rounding of each field.
\<close>

fun rounded_row :: "rat \<Rightarrow> int \<Rightarrow> string \<times> rat \<times> rat \<Rightarrow> row" where
  "rounded_row d n (t, df, ef) =
     \<lparr>Transportmittel = t,
      Distanz_km = py_round (d * df) 2,
      CO2_pro_Person_kg = py_round (d * df * ef / of_int n) 2,
      Gesamt_CO2_kg = py_round (d * df * ef) 2\<rparr>"

subsection \<open>Data frames and the feature vector\<close>

text \<open>
  A pandas DataFrame: its columns in order, each a name with the values of its rows.
\<close>

type_synonym frame = "(string \<times> rat list) list"

text \<open>\<^verbatim>\<open>df[col] = v\<close>: an existing column is overwritten in place, a new one is appended.\<close>

fun df_set :: "frame \<Rightarrow> string \<Rightarrow> rat list \<Rightarrow> frame" where
  "df_set [] col v = [(col, v)]"
| "df_set ((c, w) # df) col v =
     (if c = col then (c, v) # df else (c, w) # df_set df col v)"

text \<open>\<^verbatim>\<open>df[columns]\<close>: the listed columns in the listed order; raises on a missing one.\<close>

fun df_select :: "frame \<Rightarrow> string list \<Rightarrow> exn + frame" where
  "df_select df [] = Inr []"
| "df_select df (col # cols) =
     (case map_of df col of
        None \<Rightarrow> Inl (KeyError col)
      | Some v \<Rightarrow>
          (case df_select df cols of
             Inl e \<Rightarrow> Inl e
           | Inr r \<Rightarrow> Inr ((col, v) # r)))"

text \<open>
  The one-row frame that \<^verbatim>\<open>predict_co2_with_ml\<close> starts from. A scalar assigned to a
  column of it is broadcast to that one row.
\<close>

definition initial_input :: "rat \<Rightarrow> int \<Rightarrow> int \<Rightarrow> frame" where
  "initial_input distance vehicle_age traffic_level =
     [(''distance'', [distance]),
      (''vehicle_age'', [of_int vehicle_age]),
      (''traffic_level'', [of_int traffic_level])]"

text \<open>The first loop over \<^verbatim>\<open>columns\<close>: one-hot encoding of the vehicle type.\<close>

definition encode_vehicle_type :: "string \<Rightarrow> frame \<Rightarrow> string list \<Rightarrow> frame" where
  "encode_vehicle_type vehicle_type input_data columns =
     foldl (\<lambda>df col.
              if prefix ''vehicle_type_'' col
              then (let vehicle_type_col = ''vehicle_type_'' @ vehicle_type
                    in df_set df col [if col = vehicle_type_col then 1 else 0])
              else df)
       input_data columns"

text \<open>The second loop: one-hot encoding of the season.\<close>

definition encode_season :: "string \<Rightarrow> frame \<Rightarrow> string list \<Rightarrow> frame" where
  "encode_season season input_data columns =
     foldl (\<lambda>df col.
              if prefix ''season_'' col
              then (let season_col = ''season_'' @ season
                    in df_set df col [if col = season_col then 1 else 0])
              else df)
       input_data columns"

text \<open>The third loop: every model column still missing is added with the value 0.\<close>

definition fill_missing :: "frame \<Rightarrow> string list \<Rightarrow> frame" where
  "fill_missing input_data columns =
     foldl (\<lambda>df col. if col \<notin> set (map fst df) then df_set df col [0] else df)
       input_data columns"

text \<open>The frame after the two encoding loops, before missing columns are filled in.\<close>

definition encoded_input ::
  "rat \<Rightarrow> int \<Rightarrow> string \<Rightarrow> string \<Rightarrow> int \<Rightarrow> string list \<Rightarrow> frame" where
  "encoded_input distance vehicle_age vehicle_type season traffic_level columns =
     encode_season season
       (encode_vehicle_type vehicle_type
          (initial_input distance vehicle_age traffic_level) columns)
       columns"

text \<open>The frame handed to the model: filled, then reordered by \<^verbatim>\<open>input_data[columns]\<close>.\<close>

definition feature_vector ::
  "rat \<Rightarrow> int \<Rightarrow> string \<Rightarrow> string \<Rightarrow> int \<Rightarrow> string list \<Rightarrow> exn + frame" where
  "feature_vector distance vehicle_age vehicle_type season traffic_level columns =
     df_select
       (fill_missing
          (encoded_input distance vehicle_age vehicle_type season traffic_level columns)
          columns)
       columns"

text \<open>
  \<^verbatim>\<open>predict_co2_with_ml\<close>. The model's \<^verbatim>\<open>predict\<close> method is the parameter
  \<open>model_predict\<close>: it returns one value for each row of the frame, or raises.
\<close>

definition predict_co2_with_ml ::
  "('m \<Rightarrow> frame \<Rightarrow> exn + rat list) \<Rightarrow>
   rat \<Rightarrow> int \<Rightarrow> string \<Rightarrow> string \<Rightarrow> int \<Rightarrow> 'm \<Rightarrow> string list \<Rightarrow> exn + rat" where
  "predict_co2_with_ml model_predict distance vehicle_age vehicle_type season traffic_level
     model columns =
     (case feature_vector distance vehicle_age vehicle_type season traffic_level columns of
        Inl e \<Rightarrow> Inl e
      | Inr input_data \<Rightarrow>
          (case model_predict model input_data of
             Inl e \<Rightarrow> Inl e
           | Inr ys \<Rightarrow> (case ys of [] \<Rightarrow> Inl IndexError | co2_prediction # _ \<Rightarrow> Inr co2_prediction)))"

text \<open>
  The value that the specification gives each column of the feature vector: the numeric
  inputs under their names, 1 for the indicator of the given vehicle type and of the given
  season, 0 for every other column.
\<close>

definition spec_feature ::
  "rat \<Rightarrow> int \<Rightarrow> string \<Rightarrow> string \<Rightarrow> int \<Rightarrow> string \<Rightarrow> rat" where
  "spec_feature distance vehicle_age vehicle_type season traffic_level col =
     (if col = ''distance'' then distance
      else if col = ''vehicle_age'' then of_int vehicle_age
      else if col = ''traffic_level'' then of_int traffic_level
      else if col = ''vehicle_type_'' @ vehicle_type then 1
      else if col = ''season_'' @ season then 1
      else 0)"


subsection \<open>The synthetic training table\<close>

text \<open>
  A numpy array is the list of its elements. The arrays of the table are all drawn with
  size \<^verbatim>\<open>n_samples\<close>, and arithmetic on them is element by element.
\<close>

definition n_samples :: nat where
  "n_samples = 1000"

text \<open>The UTF-8 bytes of the season name with the umlaut.\<close>

definition Fruehling :: string where
  "Fruehling = ''Fr'' @ [CHR 0xC3, CHR 0xBC] @ ''hling''"

definition vehicle_type_choices :: "string list" where
  "vehicle_type_choices = [''Kleinwagen'', ''Mittelklasse'', ''SUV'', ''Luxusklasse'']"

definition season_choices :: "string list" where
  "season_choices = [Fruehling, ''Sommer'', ''Herbst'', ''Winter'']"

text \<open>\<^verbatim>\<open>arr[mask] = v\<close>: the elements where the mask holds are overwritten.\<close>

definition mask_assign :: "rat list \<Rightarrow> bool list \<Rightarrow> rat \<Rightarrow> rat list" where
  "mask_assign arr msk v = map2 (\<lambda>x m. if m then v else x) arr msk"

text \<open>\<^verbatim>\<open>names == name\<close> on an array of strings.\<close>

definition eq_mask :: "string list \<Rightarrow> string \<Rightarrow> bool list" where
  "eq_mask names name = map (\<lambda>x. x = name) names"

text \<open>
  The target before the noise is added: the lines from \<^verbatim>\<open>base_emissions\<close> to
  \<^verbatim>\<open>co2_emissions\<close> of \<^verbatim>\<open>train_co2_model\<close>, for \<open>n\<close> samples.
\<close>

definition co2_emissions ::
  "nat \<Rightarrow> rat list \<Rightarrow> int list \<Rightarrow> string list \<Rightarrow> string list \<Rightarrow> int list \<Rightarrow> rat list" where
  "co2_emissions n distances vehicle_ages vehicle_types seasons traffic_levels =
     (let base_emissions = map (\<lambda>d. d * 0.17) distances;
          age_factor = map (\<lambda>a. 1 + of_int a * 0.01) vehicle_ages;
          type_factor = replicate n 1;
          type_factor = mask_assign type_factor (eq_mask vehicle_types ''Kleinwagen'') 0.8;
          type_factor = mask_assign type_factor (eq_mask vehicle_types ''Mittelklasse'') 1.0;
          type_factor = mask_assign type_factor (eq_mask vehicle_types ''SUV'') 1.4;
          type_factor = mask_assign type_factor (eq_mask vehicle_types ''Luxusklasse'') 1.6;
          season_factor = replicate n 1;
          season_factor = mask_assign season_factor (eq_mask seasons Fruehling) 1.0;
          season_factor = mask_assign season_factor (eq_mask seasons ''Sommer'') 0.95;
          season_factor = mask_assign season_factor (eq_mask seasons ''Herbst'') 1.05;
          season_factor = mask_assign season_factor (eq_mask seasons ''Winter'') 1.15;
          traffic_factor = map (\<lambda>t. 1 + of_int (t - 1) * 0.05) traffic_levels
      in map2 (*) (map2 (*) (map2 (*) (map2 (*) base_emissions age_factor) type_factor)
           season_factor) traffic_factor)"

text \<open>\<^verbatim>\<open>co2_emissions += noise\<close>.\<close>

definition add_noise :: "rat list \<Rightarrow> rat list \<Rightarrow> rat list" where
  "add_noise co2 noise = map2 (+) co2 noise"

text \<open>
  The library calls of \<^verbatim>\<open>train_co2_model\<close>. The state of numpy's global random generator
  is a value of type \<open>'g\<close>, passed through the calls that draw from it; a trained forest
  is a value of type \<open>'m\<close>. The splitter and the forest get their own \<^verbatim>\<open>random_state\<close> as
  an argument and do not touch the global generator.
\<close>

record ('g, 'm) libraries =
  np_random_seed :: "nat \<Rightarrow> 'g \<Rightarrow> 'g"
  np_random_uniform :: "rat \<Rightarrow> rat \<Rightarrow> nat \<Rightarrow> 'g \<Rightarrow> rat list \<times> 'g"
  np_random_randint :: "int \<Rightarrow> int \<Rightarrow> nat \<Rightarrow> 'g \<Rightarrow> int list \<times> 'g"
  np_random_choice :: "string list \<Rightarrow> nat \<Rightarrow> 'g \<Rightarrow> string list \<times> 'g"
  np_random_normal :: "rat \<Rightarrow> rat \<Rightarrow> nat \<Rightarrow> 'g \<Rightarrow> rat list \<times> 'g"
  pd_get_dummies :: "string list \<Rightarrow> string \<Rightarrow> frame"
  train_test_split :: "frame \<Rightarrow> rat list \<Rightarrow> rat \<Rightarrow> nat \<Rightarrow> frame \<times> frame \<times> rat list \<times> rat list"
  forest_fit :: "nat \<Rightarrow> nat \<Rightarrow> frame \<Rightarrow> rat list \<Rightarrow> 'm"
  forest_predict :: "'m \<Rightarrow> frame \<Rightarrow> exn + rat list"
  feature_importances :: "'m \<Rightarrow> rat list"
  mean_absolute_error :: "rat list \<Rightarrow> rat list \<Rightarrow> rat"

text \<open>
  \<^verbatim>\<open>train_co2_model\<close>, from the state \<open>g0\<close> of the global generator in which it is called:
  the returned pair of model and column names (or the exception of the evaluation call),
  and the generator's state afterwards.
\<close>

definition train_co2_model ::
  "('g, 'm) libraries \<Rightarrow> 'g \<Rightarrow> (exn + 'm \<times> string list) \<times> 'g" where
  "train_co2_model L g0 =
     (let g = np_random_seed L 42 g0;
          (distances, g) = np_random_uniform L 10 1000 n_samples g;
          (vehicle_ages, g) = np_random_randint L 0 21 n_samples g;
          (vehicle_types, g) = np_random_choice L vehicle_type_choices n_samples g;
          vehicle_type_encoded = pd_get_dummies L vehicle_types ''vehicle_type'';
          (seasons, g) = np_random_choice L season_choices n_samples g;
          season_encoded = pd_get_dummies L seasons ''season'';
          (traffic_levels, g) = np_random_randint L 1 11 n_samples g;
          co2 = co2_emissions n_samples distances vehicle_ages vehicle_types seasons
                  traffic_levels;
          (noise, g) = np_random_normal L 0 5 n_samples g;
          co2 = add_noise co2 noise;
          X = [(''distance'', distances),
               (''vehicle_age'', map of_int vehicle_ages),
               (''traffic_level'', map of_int traffic_levels)]
              @ vehicle_type_encoded @ season_encoded;
          y = co2;
          (X_train, X_test, y_train, y_test) = train_test_split L X y 0.2 42;
          model = forest_fit L 100 42 X_train y_train
      in (case forest_predict L model X_test of
            Inl e \<Rightarrow> (Inl e, g)
          | Inr y_pred \<Rightarrow>
              let mae = mean_absolute_error L y_test y_pred
              in (Inr (model, map fst X), g)))"

text \<open>
  The module-level call \<^verbatim>\<open>model, feature_columns = train_co2_model()\<close> followed by the
  prediction of the main section, in a process whose global generator starts in state
  \<open>g0\<close>.
\<close>

definition ml_co2 ::
  "('g, 'm) libraries \<Rightarrow> 'g \<Rightarrow> rat \<Rightarrow> int \<Rightarrow> string \<Rightarrow> string \<Rightarrow> int \<Rightarrow> exn + rat" where
  "ml_co2 L g0 auto_distance vehicle_age vehicle_type season traffic_level =
     (case fst (train_co2_model L g0) of
        Inl e \<Rightarrow> Inl e
      | Inr (model, feature_columns) \<Rightarrow>
          predict_co2_with_ml (forest_predict L) auto_distance vehicle_age vehicle_type
            season traffic_level model feature_columns)"

text \<open>
  The feature-importance table: the column names paired with the model's importances
  (pandas raises if the two differ in length), sorted by descending importance. The order
  among equal importances is left open by pandas; a stable sort is taken here.
\<close>

definition feature_importance :: "string list \<Rightarrow> rat list \<Rightarrow> exn + (string \<times> rat) list" where
  "feature_importance feature_columns importances =
     (if length feature_columns \<noteq> length importances then Inl ValueError
      else Inr (sort_key (\<lambda>(f, i). - i) (zip feature_columns importances)))"



text \<open>
  A stand-in for the libraries, to instantiate the definitions with: the generator state
  is a counter, every draw returns its lower bound (or first choice, or mean), the split
  keeps everything on both sides, and the "forest" is the mean of the training targets.
\<close>

definition toy_libraries :: "(nat, rat) libraries" where
  "toy_libraries =
     \<lparr>np_random_seed = (\<lambda>s g. s),
      np_random_uniform = (\<lambda>lo hi n g. (replicate n lo, g + 1)),
      np_random_randint = (\<lambda>lo hi n g. (replicate n lo, g + 1)),
      np_random_choice = (\<lambda>xs n g. (replicate n (hd xs), g + 1)),
      np_random_normal = (\<lambda>mu sigma n g. (replicate n mu, g + 1)),
      pd_get_dummies = (\<lambda>xs p. [(p @ ''_'' @ hd xs, map (\<lambda>x. 1) xs)]),
      train_test_split = (\<lambda>X y test_size random_state. (X, X, y, y)),
      forest_fit = (\<lambda>n_estimators random_state X y. sum_list y / of_nat (length y)),
      forest_predict = (\<lambda>m X. Inr (map (\<lambda>x. m) (snd (hd X)))),
      feature_importances = (\<lambda>m. [1]),
      mean_absolute_error = (\<lambda>y_true y_pred. 0)\<rparr>"


section \<open>Properties\<close>

subsection \<open>Rounding\<close>

lemma floor_rat_numeral_divide [simp]:
  "\<lfloor>numeral a / numeral b :: rat\<rfloor> = numeral a div numeral b"
  using floor_divide_of_int_eq [of "numeral a" "numeral b", where ?'a = rat] by simp

lemma floor_rat_neg_numeral_divide [simp]:
  "\<lfloor>- (numeral a / numeral b) :: rat\<rfloor> = - numeral a div numeral b"
  using floor_divide_of_int_eq [of "- numeral a" "numeral b", where ?'a = rat] by simp



lemma py_round_2_hundredths: "\<exists>k::int. py_round x 2 = of_int k / 100"
  by (auto simp: py_round_def)

subsection \<open>The baseline formula\<close>

lemma dict_get_distance_factors:
  "(t, df, ef) \<in> set spec_factors \<Longrightarrow> dict_get distance_factors t = Inr df"
  by (auto simp: spec_factors_def dict_get_def distance_factors_def)

lemma dict_get_emission_factors:
  "(t, df, ef) \<in> set spec_factors \<Longrightarrow> dict_get emission_factors t = Inr ef"
  by (auto simp: spec_factors_def dict_get_def emission_factors_def)


lemma comparison_row_known:
  assumes "(t, df, ef) \<in> set spec_factors" and "n \<noteq> 0"
  shows "comparison_row d n t = Inr (rounded_row d n (t, df, ef))"
  using assms(2)
  by (simp add: comparison_row_def dict_get_distance_factors [OF assms(1)]
      dict_get_emission_factors [OF assms(1)] py_truediv_def Let_def)






subsection \<open>Claims about the baseline formula\<close>




text \<open>
  Claim C6. The three scenarios: 100 km by train with one traveler give distance 130.0,
  total 5.2 and 5.2 per person; 100 km by plane give distance 100.0 and total 24.0, for
  every traveler count \<open>n \<ge> 1\<close>; 50 km by car with two travelers give distance 60.0, total
  10.2 and 5.1 per person.
\<close>

theorem baseline_scenarios:
  assumes "1 \<le> n"
  shows "comparison_row 100 1 ''Zug'' =
           Inr \<lparr>Transportmittel = ''Zug'', Distanz_km = 130, CO2_pro_Person_kg = 5.2,
                Gesamt_CO2_kg = 5.2\<rparr> \<and>
         map_sum id (\<lambda>r. (Distanz_km r, Gesamt_CO2_kg r))
           (comparison_row 100 n ''Flugzeug'') = Inr (100, 24) \<and>
         comparison_row 50 2 ''Auto'' =
           Inr \<lparr>Transportmittel = ''Auto'', Distanz_km = 60, CO2_pro_Person_kg = 5.1,
                Gesamt_CO2_kg = 10.2\<rparr>"
proof -
  have zug: "comparison_row 100 1 ''Zug'' =
           Inr \<lparr>Transportmittel = ''Zug'', Distanz_km = 130, CO2_pro_Person_kg = 5.2,
                Gesamt_CO2_kg = 5.2\<rparr>"
    by code_simp
  have car: "comparison_row 50 2 ''Auto'' =
           Inr \<lparr>Transportmittel = ''Auto'', Distanz_km = 60, CO2_pro_Person_kg = 5.1,
                Gesamt_CO2_kg = 10.2\<rparr>"
    by code_simp
  have m: "(''Flugzeug'', 1.0, 0.24) \<in> set spec_factors" by (simp add: spec_factors_def)
  from assms have n: "n \<noteq> 0" by simp
  have d: "py_round (100 * 1.0) 2 = 100" by code_simp
  have t: "py_round (100 * 1.0 * 0.24) 2 = 24" by code_simp
  have plane: "map_sum id (\<lambda>r. (Distanz_km r, Gesamt_CO2_kg r))
           (comparison_row 100 n ''Flugzeug'') = Inr (100, 24)"
    using d t by (simp add: comparison_row_known [OF m n])
  from zug plane car show ?thesis by blast
qed

theorem baseline_scenarios_witness:
  "(1::int) \<le> 3 \<and>
   comparison_row 100 1 ''Zug'' =
           Inr \<lparr>Transportmittel = ''Zug'', Distanz_km = 130, CO2_pro_Person_kg = 5.2,
                Gesamt_CO2_kg = 5.2\<rparr> \<and>
   map_sum id (\<lambda>r. (Distanz_km r, Gesamt_CO2_kg r))
           (comparison_row 100 3 ''Flugzeug'') = Inr (100, 24) \<and>
   comparison_row 50 2 ''Auto'' =
           Inr \<lparr>Transportmittel = ''Auto'', Distanz_km = 60, CO2_pro_Person_kg = 5.1,
                Gesamt_CO2_kg = 10.2\<rparr>"
proof -
  have n: "(1::int) \<le> 3" by simp
  from baseline_scenarios [OF n] n show ?thesis by blast
qed




text \<open>
  The start is not found and the lookup of the end raises: the generic calculation error
  is reported, not the location-not-found message.
\<close>

theorem lookup_raises_counterexample:
  "calculate_co2_footprint
     (\<lambda>q. if q = ''Atlantis'' then Inr None else Inl (LibraryError ''GeocoderTimedOut''))
     (\<lambda>a b. Inr 100) ''Atlantis'' ''Berlin'' [''Auto''] 1 =
   Inl (CalculationError (LibraryError ''GeocoderTimedOut'')) \<and>
   CalculationError (LibraryError ''GeocoderTimedOut'') \<noteq> LocationNotFound"
  by (simp add: calculate_co2_footprint_def)

text \<open>
  Claim C4, as amended. If the geocoder finds no location for the start or for the end,
  the function shows an error and returns no rows; the error is the location-not-found
  message whenever both lookups return (neither raises).
\<close>

theorem location_not_found:
  assumes "geocode start = Inr None \<or> geocode end = Inr None"
  shows "isl (calculate_co2_footprint geocode geodesic_km start end transports n) \<and>
         (\<not> isl (geocode start) \<and> \<not> isl (geocode end) \<longrightarrow>
            calculate_co2_footprint geocode geodesic_km start end transports n =
              Inl LocationNotFound)"
  using assms
  by (auto simp: calculate_co2_footprint_def split: sum.splits option.splits)

theorem location_not_found_witness:
  "((\<lambda>q. if q = ''Atlantis'' then Inr None
         else Inr (Some \<lparr>latitude = 52.52, longitude = 13.405\<rparr>)) ''Atlantis'' = Inr None \<or>
    (\<lambda>q. if q = ''Atlantis'' then Inr None
         else Inr (Some \<lparr>latitude = 52.52, longitude = 13.405\<rparr>)) ''Berlin'' = Inr None) \<and>
   calculate_co2_footprint
     (\<lambda>q. if q = ''Atlantis'' then Inr None
          else Inr (Some \<lparr>latitude = 52.52, longitude = 13.405\<rparr>))
     (\<lambda>a b. Inr 100) ''Atlantis'' ''Berlin'' [''Auto''] 1 = Inl LocationNotFound"
  using location_not_found
    [of "\<lambda>q. if q = ''Atlantis'' then Inr None
             else Inr (Some \<lparr>latitude = 52.52, longitude = 13.405\<rparr>)"
        "''Atlantis''" "''Berlin''" "\<lambda>a b. Inr 100" "[''Auto'']" 1]
  by simp



subsection \<open>The feature vector\<close>

lemma map_of_df_set: "map_of (df_set df col v) = (map_of df)(col \<mapsto> v)"
  by (induction df col v rule: df_set.induct) auto

lemma map_of_encode_loop:
  "map_of (foldl (\<lambda>df col. if P col then df_set df col (f col) else df) df0 cols) k =
     (if k \<in> set cols \<and> P k then Some (f k) else map_of df0 k)"
proof (induction cols arbitrary: df0)
  case Nil
  show ?case by simp
next
  case (Cons c cols)
  show ?case by (simp add: Cons.IH map_of_df_set)
qed

lemma map_of_encode_vehicle_type:
  "map_of (encode_vehicle_type vt df0 cols) k =
     (if k \<in> set cols \<and> prefix ''vehicle_type_'' k
      then Some [if k = ''vehicle_type_'' @ vt then 1 else 0] else map_of df0 k)"
  unfolding encode_vehicle_type_def Let_def by (rule map_of_encode_loop)

lemma map_of_encode_season:
  "map_of (encode_season s df0 cols) k =
     (if k \<in> set cols \<and> prefix ''season_'' k
      then Some [if k = ''season_'' @ s then 1 else 0] else map_of df0 k)"
  unfolding encode_season_def Let_def by (rule map_of_encode_loop)

lemma fill_missing_Cons:
  "fill_missing df0 (c # cols) =
     fill_missing (if map_of df0 c = None then df_set df0 c [0] else df0) cols"
  by (simp add: fill_missing_def map_of_eq_None_iff)

lemma map_of_fill_missing:
  "map_of (fill_missing df0 cols) k =
     (if k \<in> set cols \<and> map_of df0 k = None then Some [0] else map_of df0 k)"
proof (induction cols arbitrary: df0)
  case Nil
  show ?case by (simp add: fill_missing_def)
next
  case (Cons c cols)
  show ?case
  proof (cases "map_of df0 c = None")
    case True
    then show ?thesis
      by (simp add: fill_missing_Cons Cons.IH map_of_df_set)
  next
    case False
    then show ?thesis
      by (auto simp: fill_missing_Cons Cons.IH)
  qed
qed

lemma df_select_total:
  assumes "\<And>c. c \<in> set cols \<Longrightarrow> map_of df c = Some (g c)"
  shows "df_select df cols = Inr (map (\<lambda>c. (c, g c)) cols)"
  using assms by (induction cols) simp_all


lemma prefix_vehicle_type_other:
  assumes "prefix ''vehicle_type_'' c"
  shows "c \<noteq> ''distance''" "c \<noteq> ''vehicle_age''" "c \<noteq> ''traffic_level''"
    "c \<noteq> ''season_'' @ s" "\<not> prefix ''season_'' c"
  using assms by (auto simp: prefix_def)

lemma prefix_season_other:
  assumes "prefix ''season_'' c"
  shows "c \<noteq> ''distance''" "c \<noteq> ''vehicle_age''" "c \<noteq> ''traffic_level''"
    "c \<noteq> ''vehicle_type_'' @ vt" "\<not> prefix ''vehicle_type_'' c"
  using assms by (auto simp: prefix_def)

lemma map_of_initial_input:
  "map_of (initial_input d a t) c =
     (if c = ''distance'' then Some [d]
      else if c = ''vehicle_age'' then Some [of_int a]
      else if c = ''traffic_level'' then Some [of_int t] else None)"
  by (simp add: initial_input_def)

lemma map_of_encoded_input:
  "map_of (encoded_input d a vt s t cols) c =
     (if c \<in> set cols \<and> prefix ''season_'' c
      then Some [if c = ''season_'' @ s then 1 else 0]
      else if c \<in> set cols \<and> prefix ''vehicle_type_'' c
      then Some [if c = ''vehicle_type_'' @ vt then 1 else 0]
      else map_of (initial_input d a t) c)"
  by (simp add: encoded_input_def map_of_encode_season map_of_encode_vehicle_type)

lemma map_of_filled_input:
  assumes "c \<in> set cols"
  shows "map_of (fill_missing (encoded_input d a vt s t cols) cols) c =
           Some [spec_feature d a vt s t c]"
proof (cases "prefix ''season_'' c")
  case True
  with assms prefix_season_other [OF True] show ?thesis
    by (simp add: map_of_fill_missing map_of_encoded_input spec_feature_def)
next
  case no_season: False
  show ?thesis
  proof (cases "prefix ''vehicle_type_'' c")
    case True
    with assms no_season prefix_vehicle_type_other [OF True] show ?thesis
      by (simp add: map_of_fill_missing map_of_encoded_input spec_feature_def)
  next
    case False
    have "c \<noteq> ''season_'' @ s" "c \<noteq> ''vehicle_type_'' @ vt"
      using no_season False by auto
    with assms no_season False show ?thesis
      by (simp add: map_of_fill_missing map_of_encoded_input map_of_initial_input
          spec_feature_def)
  qed
qed

lemma feature_vector_closed:
  "feature_vector d a vt s t cols = Inr (map (\<lambda>c. (c, [spec_feature d a vt s t c])) cols)"
  unfolding feature_vector_def
  by (rule df_select_total) (rule map_of_filled_input)

subsection \<open>Claims about the prediction\<close>

text \<open>
  A column list with a column that the encoding loops do not produce: the frame assembled
  by the loops lacks \<^verbatim>\<open>humidity\<close>, so its column set differs from the list; no check
  fails, the column is filled with 0 and the model's value is returned.
\<close>

theorem column_mismatch_counterexample:
  "set (map fst (encoded_input 120 5 ''SUV'' ''Winter'' 7
      [''distance'', ''vehicle_age'', ''traffic_level'', ''vehicle_type_SUV'',
       ''season_Winter'', ''humidity''])) \<noteq>
   set [''distance'', ''vehicle_age'', ''traffic_level'', ''vehicle_type_SUV'',
        ''season_Winter'', ''humidity''] \<and>
   predict_co2_with_ml (\<lambda>m fr. Inr [m + sum_list (concat (map snd fr))])
     120 5 ''SUV'' ''Winter'' 7 (1000 :: rat)
     [''distance'', ''vehicle_age'', ''traffic_level'', ''vehicle_type_SUV'',
      ''season_Winter'', ''humidity''] = Inr 1134"
proof -
  have enc: "encoded_input 120 5 ''SUV'' ''Winter'' 7
      [''distance'', ''vehicle_age'', ''traffic_level'', ''vehicle_type_SUV'',
       ''season_Winter'', ''humidity''] =
     [(''distance'', [120]), (''vehicle_age'', [5]), (''traffic_level'', [7]),
      (''vehicle_type_SUV'', [1]), (''season_Winter'', [1])]"
    by (simp add: encoded_input_def encode_season_def encode_vehicle_type_def
        initial_input_def)
  have "''humidity'' \<notin> set (map fst (encoded_input 120 5 ''SUV'' ''Winter'' 7
      [''distance'', ''vehicle_age'', ''traffic_level'', ''vehicle_type_SUV'',
       ''season_Winter'', ''humidity'']))"
    unfolding enc by simp
  then have ne: "set (map fst (encoded_input 120 5 ''SUV'' ''Winter'' 7
      [''distance'', ''vehicle_age'', ''traffic_level'', ''vehicle_type_SUV'',
       ''season_Winter'', ''humidity''])) \<noteq>
   set [''distance'', ''vehicle_age'', ''traffic_level'', ''vehicle_type_SUV'',
        ''season_Winter'', ''humidity'']"
    by (metis list.set_intros(1,2))
  have "predict_co2_with_ml (\<lambda>m fr. Inr [m + sum_list (concat (map snd fr))])
     120 5 ''SUV'' ''Winter'' 7 (1000 :: rat)
     [''distance'', ''vehicle_age'', ''traffic_level'', ''vehicle_type_SUV'',
      ''season_Winter'', ''humidity''] = Inr 1134"
    by (simp add: predict_co2_with_ml_def feature_vector_closed spec_feature_def)
  with ne show ?thesis by blast
qed

text \<open>
  Claim C3, as amended. The prediction performs no contract check and does not fail on a
  column mismatch: a column that the assembled frame lacks is added with the value 0 and
  the frame is then projected onto the recorded column list, so for every column list the
  frame handed to the model has exactly the recorded columns in the recorded order, and
  the result is what the model returns for that frame.
\<close>

theorem prediction_without_contract_check:
  "\<exists>fv. feature_vector distance vehicle_age vehicle_type season traffic_level columns = Inr fv \<and>
        map fst fv = columns \<and>
        predict_co2_with_ml model_predict distance vehicle_age vehicle_type season
          traffic_level model columns =
          (case model_predict model fv of
             Inl e \<Rightarrow> Inl e
           | Inr ys \<Rightarrow> (case ys of [] \<Rightarrow> Inl IndexError | y # _ \<Rightarrow> Inr y))"
  by (simp add: predict_co2_with_ml_def feature_vector_closed comp_def)

theorem prediction_without_contract_check_witness:
  "feature_vector 120 5 ''SUV'' ''Winter'' 7 [''traffic_level'', ''humidity'', ''season_Winter''] =
     Inr [(''traffic_level'', [7]), (''humidity'', [0]), (''season_Winter'', [1])] \<and>
   predict_co2_with_ml (\<lambda>m fr. Inr [m + sum_list (concat (map snd fr))])
     120 5 ''SUV'' ''Winter'' 7 (1000 :: rat)
     [''traffic_level'', ''humidity'', ''season_Winter''] = Inr 1008"
proof -
  from prediction_without_contract_check
    [of 120 5 "''SUV''" "''Winter''" 7 "[''traffic_level'', ''humidity'', ''season_Winter'']"
        "\<lambda>m fr. Inr [m + sum_list (concat (map snd fr))]" "1000 :: rat"]
  obtain fv where
    fv: "feature_vector 120 5 ''SUV'' ''Winter'' 7
           [''traffic_level'', ''humidity'', ''season_Winter''] = Inr fv" and
    p: "predict_co2_with_ml (\<lambda>m fr. Inr [m + sum_list (concat (map snd fr))])
          120 5 ''SUV'' ''Winter'' 7 (1000 :: rat)
          [''traffic_level'', ''humidity'', ''season_Winter''] =
        (case Inr [1000 + sum_list (concat (map snd fv))] :: exn + rat list of
           Inl e \<Rightarrow> Inl e
         | Inr ys \<Rightarrow> (case ys of [] \<Rightarrow> Inl IndexError | y # _ \<Rightarrow> Inr y))"
    by blast
  have v: "feature_vector 120 5 ''SUV'' ''Winter'' 7
             [''traffic_level'', ''humidity'', ''season_Winter''] =
           Inr [(''traffic_level'', [7]), (''humidity'', [0]), (''season_Winter'', [1])]"
    by (simp add: feature_vector_closed spec_feature_def)
  from fv v have "fv = [(''traffic_level'', [7]), (''humidity'', [0]), (''season_Winter'', [1])]"
    by simp
  with p v show ?thesis by simp
qed

text \<open>
  Claim C8. For every prediction call the feature vector has exactly the recorded columns
  in the recorded order; a column whose name starts with \<^verbatim>\<open>vehicle_type_\<close> holds 1 if it
  is the column of the given vehicle type and 0 otherwise, and likewise for \<^verbatim>\<open>season_\<close>;
  for a vehicle type or season with no column in the list, every indicator of its group is
  0, and no error is raised.
\<close>

theorem one_hot_feature_vector:
  "\<exists>fv. feature_vector distance vehicle_age vehicle_type season traffic_level columns = Inr fv \<and>
        map fst fv = columns \<and>
        (\<forall>(c, v) \<in> set fv.
           (prefix ''vehicle_type_'' c \<longrightarrow>
              v = [if c = ''vehicle_type_'' @ vehicle_type then 1 else 0]) \<and>
           (prefix ''season_'' c \<longrightarrow> v = [if c = ''season_'' @ season then 1 else 0])) \<and>
        (''vehicle_type_'' @ vehicle_type \<notin> set columns \<longrightarrow>
           (\<forall>(c, v) \<in> set fv. prefix ''vehicle_type_'' c \<longrightarrow> v = [0])) \<and>
        (''season_'' @ season \<notin> set columns \<longrightarrow>
           (\<forall>(c, v) \<in> set fv. prefix ''season_'' c \<longrightarrow> v = [0]))"
proof -
  let ?f = "spec_feature distance vehicle_age vehicle_type season traffic_level"
  let ?fv = "map (\<lambda>c. (c, [?f c])) columns"
  have vt: "?f c = (if c = ''vehicle_type_'' @ vehicle_type then 1 else 0)"
    if "prefix ''vehicle_type_'' c" for c
    using prefix_vehicle_type_other [OF that] by (simp add: spec_feature_def)
  have se: "?f c = (if c = ''season_'' @ season then 1 else 0)"
    if "prefix ''season_'' c" for c
    using prefix_season_other [OF that] by (simp add: spec_feature_def)
  have "feature_vector distance vehicle_age vehicle_type season traffic_level columns = Inr ?fv"
    by (rule feature_vector_closed)
  moreover have "map fst ?fv = columns"
    by (simp add: comp_def)
  moreover have "\<forall>(c, v) \<in> set ?fv.
           (prefix ''vehicle_type_'' c \<longrightarrow>
              v = [if c = ''vehicle_type_'' @ vehicle_type then 1 else 0]) \<and>
           (prefix ''season_'' c \<longrightarrow> v = [if c = ''season_'' @ season then 1 else 0])"
    using vt se by auto
  moreover have "''vehicle_type_'' @ vehicle_type \<notin> set columns \<longrightarrow>
           (\<forall>(c, v) \<in> set ?fv. prefix ''vehicle_type_'' c \<longrightarrow> v = [0])"
    using vt by auto
  moreover have "''season_'' @ season \<notin> set columns \<longrightarrow>
           (\<forall>(c, v) \<in> set ?fv. prefix ''season_'' c \<longrightarrow> v = [0])"
    using se by auto
  ultimately show ?thesis by blast
qed

theorem one_hot_feature_vector_witness:
  "''vehicle_type_'' @ ''Van'' \<notin>
     set [''distance'', ''vehicle_age'', ''traffic_level'', ''vehicle_type_Kleinwagen'',
          ''vehicle_type_SUV'', ''season_Sommer'', ''season_Winter''] \<and>
   prefix ''vehicle_type_'' ''vehicle_type_SUV'' \<and> prefix ''season_'' ''season_Winter'' \<and>
   feature_vector 120 5 ''Van'' ''Winter'' 7
     [''distance'', ''vehicle_age'', ''traffic_level'', ''vehicle_type_Kleinwagen'',
      ''vehicle_type_SUV'', ''season_Sommer'', ''season_Winter''] =
     Inr [(''distance'', [120]), (''vehicle_age'', [5]), (''traffic_level'', [7]),
          (''vehicle_type_Kleinwagen'', [0]), (''vehicle_type_SUV'', [0]),
          (''season_Sommer'', [0]), (''season_Winter'', [1])]"
proof -
  from one_hot_feature_vector
    [of 120 5 "''Van''" "''Winter''" 7
        "[''distance'', ''vehicle_age'', ''traffic_level'', ''vehicle_type_Kleinwagen'',
          ''vehicle_type_SUV'', ''season_Sommer'', ''season_Winter'']"]
  obtain fv where
    fv: "feature_vector 120 5 ''Van'' ''Winter'' 7
           [''distance'', ''vehicle_age'', ''traffic_level'', ''vehicle_type_Kleinwagen'',
            ''vehicle_type_SUV'', ''season_Sommer'', ''season_Winter''] = Inr fv"
    by blast
  have v: "feature_vector 120 5 ''Van'' ''Winter'' 7
     [''distance'', ''vehicle_age'', ''traffic_level'', ''vehicle_type_Kleinwagen'',
      ''vehicle_type_SUV'', ''season_Sommer'', ''season_Winter''] =
     Inr [(''distance'', [120]), (''vehicle_age'', [5]), (''traffic_level'', [7]),
          (''vehicle_type_Kleinwagen'', [0]), (''vehicle_type_SUV'', [0]),
          (''season_Sommer'', [0]), (''season_Winter'', [1])]"
    by (simp add: feature_vector_closed spec_feature_def)
  with fv show ?thesis by simp
qed

subsection \<open>The synthetic training table\<close>








lemma train_co2_model_seeded:
  assumes "\<And>g g'. np_random_seed L 42 g = np_random_seed L 42 g'"
  shows "train_co2_model L g1 = train_co2_model L g2"
  unfolding train_co2_model_def by (simp only: assms [of g1 g2])

lemma member_le_sum_list_nonneg:
  fixes xs :: "rat list"
  assumes "\<forall>x\<in>set xs. 0 \<le> x" and "x \<in> set xs"
  shows "x \<le> sum_list xs"
  using assms
proof (induction xs)
  case Nil
  then show ?case by simp
next
  case (Cons y ys)
  have nonneg: "0 \<le> sum_list ys"
    using Cons.prems(1) by (simp add: sum_list_nonneg)
  show ?case
  proof (cases "x = y")
    case True
    with nonneg show ?thesis by simp
  next
    case False
    with Cons.prems have "x \<in> set ys" and "\<forall>x\<in>set ys. 0 \<le> x" and "0 \<le> y" by simp_all
    with Cons.IH have "x \<le> sum_list ys" by blast
    with \<open>0 \<le> y\<close> show ?thesis by simp
  qed
qed

lemma sum_list_snd_sort_key:
  fixes xs :: "(string \<times> rat) list"
  shows "sum_list (map snd (sort_key k xs)) = sum_list (map snd xs)"
proof -
  have "mset (map snd (sort_key k xs)) = mset (map snd xs)"
    by simp
  then have "sum_mset (mset (map snd (sort_key k xs))) = sum_mset (mset (map snd xs))"
    by (rule arg_cong)
  then show ?thesis
    by (simp only: sum_mset_sum_list)
qed

lemma sorted_descending:
  fixes xs :: "(string \<times> rat) list"
  shows "sorted (rev (map snd (sort_key (\<lambda>(f, i). - i) xs)))"
proof -
  have k: "(\<lambda>(f, i). - i) = (\<lambda>p :: string \<times> rat. - snd p)"
    by (auto simp: fun_eq_iff)
  have "sorted (map (\<lambda>p. - snd p) (sort_key (\<lambda>p. - snd p) xs))"
    by (rule sorted_sort_key)
  then show ?thesis
    unfolding k by (simp add: sorted_wrt_rev sorted_map sorted_wrt_map)
qed

subsection \<open>Claims about the training table and the model\<close>



text \<open>
  Claim C7. The training starts by seeding the global generator with 42, and seeding
  overwrites the generator's state (the hypothesis, numpy's contract). So whatever state
  the generator is in when the model is trained, the same model and columns result, and
  the prediction for given inputs is the same value.
\<close>

theorem prediction_deterministic:
  assumes "\<And>g g'. np_random_seed L 42 g = np_random_seed L 42 g'"
  shows "ml_co2 L g1 auto_distance vehicle_age vehicle_type season traffic_level =
         ml_co2 L g2 auto_distance vehicle_age vehicle_type season traffic_level"
  unfolding ml_co2_def by (simp only: train_co2_model_seeded [OF assms, of g1 g2])

theorem prediction_deterministic_witness:
  "(\<forall>g g'. np_random_seed toy_libraries 42 g = np_random_seed toy_libraries 42 g') \<and>
   ml_co2 toy_libraries 0 120 5 ''SUV'' ''Winter'' 5 =
   ml_co2 toy_libraries 7 120 5 ''SUV'' ''Winter'' 5"
proof -
  have seed: "\<And>g g'. np_random_seed toy_libraries 42 g = np_random_seed toy_libraries 42 g'"
    by (simp add: toy_libraries_def)
  from prediction_deterministic [OF seed, of 0 120 5 "''SUV''" "''Winter''" 5 7] seed
  show ?thesis by blast
qed

text \<open>
  Claim C9. If the importances that the forest reports are as many as the feature columns,
  non-negative and sum to 1 (scikit-learn's contract for a forest that has split at least
  once), then the ranking pairs every feature name with its score, each score lies in
  \<open>[0, 1]\<close>, the scores sum to 1, and the ranking is in descending order of score.
\<close>

theorem feature_importance_normalized:
  assumes "length importances = length feature_columns"
    and "\<forall>x\<in>set importances. 0 \<le> x"
    and "sum_list importances = 1"
  shows "\<exists>ranking. feature_importance feature_columns importances = Inr ranking \<and>
           mset ranking = mset (zip feature_columns importances) \<and>
           mset (map fst ranking) = mset feature_columns \<and>
           (\<forall>(f, x)\<in>set ranking. 0 \<le> x \<and> x \<le> 1) \<and>
           sum_list (map snd ranking) = 1 \<and>
           sorted (rev (map snd ranking))"
proof -
  let ?k = "\<lambda>(f, i). - i :: rat"
  let ?z = "zip feature_columns importances"
  let ?r = "sort_key ?k ?z"
  have r: "feature_importance feature_columns importances = Inr ?r"
    using assms(1) by (simp add: feature_importance_def)
  have m: "mset ?r = mset ?z" by simp
  have "mset (map fst ?r) = mset (map fst ?z)" by simp
  then have names: "mset (map fst ?r) = mset feature_columns"
    using assms(1) by simp
  have snd_z: "map snd ?z = importances"
    using assms(1) by simp
  have total: "sum_list (map snd ?r) = 1"
    using assms(3) by (simp only: sum_list_snd_sort_key snd_z)
  have bounds: "\<forall>(f, x)\<in>set ?r. 0 \<le> x \<and> x \<le> 1"
  proof (clarify)
    fix f x assume "(f, x) \<in> set ?r"
    then have "(f, x) \<in> set ?z" by simp
    then have mem: "x \<in> set importances" by (rule set_zip_rightD)
    with assms(2) have "0 \<le> x" by blast
    moreover from member_le_sum_list_nonneg [OF assms(2) mem] assms(3) have "x \<le> 1" by simp
    ultimately show "0 \<le> x \<and> x \<le> 1" by blast
  qed
  have desc: "sorted (rev (map snd ?r))" by (rule sorted_descending)
  from r m names bounds total desc show ?thesis by blast
qed

theorem feature_importance_normalized_witness:
  "length [0.5, 0.1, 0.4 :: rat] = length [''distance'', ''vehicle_age'', ''traffic_level''] \<and>
   (0 :: rat) \<le> 0.5 \<and> (0 :: rat) \<le> 0.1 \<and> (0 :: rat) \<le> 0.4 \<and>
   sum_list [0.5, 0.1, 0.4 :: rat] = 1 \<and>
   feature_importance [''distance'', ''vehicle_age'', ''traffic_level''] [0.5, 0.1, 0.4] =
     Inr [(''distance'', 0.5), (''traffic_level'', 0.4), (''vehicle_age'', 0.1)] \<and>
   sum_list (map snd [(''distance'', 0.5 :: rat), (''traffic_level'', 0.4),
     (''vehicle_age'', 0.1)]) = 1"
proof -
  have len: "length [0.5, 0.1, 0.4 :: rat] =
      length [''distance'', ''vehicle_age'', ''traffic_level'']" by simp
  have nonneg: "\<forall>x\<in>set [0.5, 0.1, 0.4 :: rat]. 0 \<le> x" by simp
  have total: "sum_list [0.5, 0.1, 0.4 :: rat] = 1" by simp
  have v: "feature_importance [''distance'', ''vehicle_age'', ''traffic_level'']
      [0.5, 0.1, 0.4] =
     Inr [(''distance'', 0.5), (''traffic_level'', 0.4), (''vehicle_age'', 0.1)]"
    by code_simp
  from feature_importance_normalized [OF len nonneg total] v len nonneg total
  show ?thesis by auto
qed

end
